theory Spec2Isabelle
  imports Main "HOL-Library.Sublist"
begin

section \<open>Data model\<close>

text \<open>
  The credentials handled by \<^verbatim>\<open>src/index.js\<close> are plain JSON documents: they come out of
  \<^verbatim>\<open>JSON.parse\<close>, out of the builders and out of the body of the compliance response, and the
  orchestrator never looks inside them. Numbers are kept as integers: the only test the file
  applies to a JSON value is JavaScript truthiness, which for a number asks whether it is zero.
\<close>

datatype json =
    JNull
  | JBool bool
  | JNum int
  | JStr string
  | JArr "json list"
  | JObj "(string \<times> json) list"

text \<open>JavaScript's conversion to boolean, as applied by \<^verbatim>\<open>&&\<close> and \<^verbatim>\<open>||\<close>.\<close>

fun truthy :: "json \<Rightarrow> bool" where
  "truthy JNull = False"
| "truthy (JBool b) = b"
| "truthy (JNum n) = (n \<noteq> 0)"
| "truthy (JStr s) = (s \<noteq> [])"
| "truthy (JArr xs) = True"
| "truthy (JObj kvs) = True"

text \<open>The Verifiable Presentation envelope of the data model: context, type and the ordered
  credentials.\<close>

record vp =
  vp_context :: "string list"
  vp_type :: "string list"
  verifiableCredential :: "json list"

text \<open>The settings object returned by \<^verbatim>\<open>getConfig()\<close>: the fields \<^verbatim>\<open>index.js\<close> reads.\<close>

record config =
  urlAPICompliance :: string
  openAPISpec :: string
  baseUrl :: string
  webserverDir :: string
  didWebId :: string
  urlParticipant :: string
  urlTermsConditions :: string
  urlServiceOffering :: string
  pathParticipant :: string
  pathLRN :: string
  pathTermsConditions :: string
  pathServiceOffering :: string
  pathVerifiablePresentation :: string

text \<open>The argument objects handed to \<^verbatim>\<open>buildOpenAPIResources\<close> and \<^verbatim>\<open>buildServiceOffering\<close>.\<close>

record resources_args =
  openAPIUrl :: string
  didIssuer :: string
  participantUrl :: string
  virtResourceUrl :: string
  virtResourceWritePath :: string
  instVirtResourceUrl :: string
  instVirtResourceWritePath :: string

record offering_args =
  so_didIssuer :: string
  legalParticipantUrl :: string
  termsConditionsPath :: string
  termsConditionsUrl :: string
  serviceOfferingUrl :: string
  serviceOfferingWritePath :: string
  aggregatedResourceUrls :: "string list"

text \<open>An HTTP response as axios delivers it, on success (\<^verbatim>\<open>res.data\<close>) and inside a rejection
  (\<^verbatim>\<open>err.response.data\<close>).\<close>

datatype response = Response (status: nat) (data: json)

text \<open>
  Everything a promise of this program can reject with, or a statement can throw:
  the rejection of \<^verbatim>\<open>axios.post\<close> (with \<^verbatim>\<open>err.response\<close> absent when the request never got an
  answer), the rejection of \<^verbatim>\<open>fs.readFile\<close>, the \<^verbatim>\<open>SyntaxError\<close> of \<^verbatim>\<open>JSON.parse\<close>, the
  \<^verbatim>\<open>new Error(message)\<close> of \<^verbatim>\<open>signCredentials\<close> (a message and nothing else), and the
  rejection of a builder or of \<^verbatim>\<open>writeFile\<close>.
\<close>

datatype error =
    AxiosError string "response option"
  | FsError string
  | SyntaxError string
  | Error (message: string)
  | Rejected string

text \<open>The value of \<^verbatim>\<open>errMsg\<close>: a response body or the caught error itself.\<close>

datatype err_msg = Payload json | Raw error

section \<open>Effects\<close>

text \<open>
  Every call that leaves \<^verbatim>\<open>index.js\<close> is recorded, in program order, in a trace: logger
  calls, \<^verbatim>\<open>fs.readFile\<close>, \<^verbatim>\<open>axios.post\<close>, \<^verbatim>\<open>writeFile\<close> and the builders.
\<close>

datatype level = LInfo | LDebug | LError

datatype logged = Text string | Doc json | Presentation vp | Failure err_msg

datatype call =
    BuildParticipantVC
  | BuildLegalRegistrationNumberVC
  | BuildTermsConditionsVC
  | BuildOpenAPIResources resources_args
  | BuildServiceOffering offering_args
  | WriteDIDFile

datatype event =
    Log level logged
  | ReadFile string
  | Post string vp
  | WriteFile string vp
  | Call call

type_synonym fsys = "string \<rightharpoonup> string"

record world =
  files :: fsys
  trace :: "event list"

text \<open>An asynchronous action: it runs on the world and either rejects or resolves.\<close>

type_synonym 'a prog = "world \<Rightarrow> (error + 'a) \<times> world"

text \<open>
  The modules \<^verbatim>\<open>index.js\<close> imports and the libraries it calls. The synchronous helpers are
  functions of their arguments; the asynchronous collaborators act on the file system and may
  reject; the compliance endpoint answers a request with a response or a rejection, and its
  answer depends on the request alone (no workflow sends more than one).
\<close>

record deps =
  getConfig :: config
  getVirtualResourceName :: "string \<Rightarrow> string"
  getInstantiatedVirtualResourceName :: "string \<Rightarrow> string"
  joinUrl :: "string \<Rightarrow> string \<Rightarrow> string"
  path_join :: "string \<Rightarrow> string \<Rightarrow> string"
  JSON_parse :: "string \<Rightarrow> json option"
  JSON_stringify :: "err_msg \<Rightarrow> string"
  chalk_green :: "string \<Rightarrow> string"
  chalk_red :: "string \<Rightarrow> string"
  buildVerifiablePresentation :: "json list \<Rightarrow> vp"
  axios_post :: "string \<Rightarrow> vp \<Rightarrow> error + response"
  buildParticipantVC :: "fsys \<Rightarrow> (error + json) \<times> fsys"
  buildLegalRegistrationNumberVC :: "fsys \<Rightarrow> (error + json) \<times> fsys"
  buildTermsConditionsVC :: "fsys \<Rightarrow> (error + json) \<times> fsys"
  buildOpenAPIResources :: "resources_args \<Rightarrow> fsys \<Rightarrow> (error + json \<times> json) \<times> fsys"
  buildServiceOffering :: "offering_args \<Rightarrow> fsys \<Rightarrow> (error + json) \<times> fsys"
  writeFile :: "string \<Rightarrow> vp \<Rightarrow> fsys \<Rightarrow> (error + unit) \<times> fsys"
  writeDIDFile :: "fsys \<Rightarrow> (error + unit) \<times> fsys"

definition resolve :: "'a \<Rightarrow> 'a prog" where
  "resolve x w = (Inr x, w)"

definition throw :: "error \<Rightarrow> 'a prog" where
  "throw e w = (Inl e, w)"

text \<open>Sequencing of awaited steps: a rejection skips everything after it.\<close>

definition andThen :: "'a prog \<Rightarrow> ('a \<Rightarrow> 'b prog) \<Rightarrow> 'b prog" where
  "andThen m f w = (case m w of (Inl e, w') \<Rightarrow> (Inl e, w') | (Inr x, w') \<Rightarrow> f x w')"

text \<open>\<^verbatim>\<open>try { ... } catch (err) { ... }\<close>\<close>

definition try_catch :: "'a prog \<Rightarrow> (error \<Rightarrow> 'a prog) \<Rightarrow> 'a prog" where
  "try_catch m h w = (case m w of (Inl e, w') \<Rightarrow> h e w' | (Inr x, w') \<Rightarrow> (Inr x, w'))"

definition emit :: "event \<Rightarrow> unit prog" where
  "emit e w = (Inr (), w\<lparr>trace := trace w @ [e]\<rparr>)"

definition logger :: "level \<Rightarrow> logged \<Rightarrow> unit prog" where
  "logger l x = emit (Log l x)"

text \<open>A collaborator runs on the file system of the world.\<close>

definition external :: "(fsys \<Rightarrow> (error + 'a) \<times> fsys) \<Rightarrow> 'a prog" where
  "external f w = (case f (files w) of (r, fs) \<Rightarrow> (r, w\<lparr>files := fs\<rparr>))"

definition invoke :: "call \<Rightarrow> (fsys \<Rightarrow> (error + 'a) \<times> fsys) \<Rightarrow> 'a prog" where
  "invoke c f = andThen (emit (Call c)) (\<lambda>_. external f)"

text \<open>\<^verbatim>\<open>await fs.readFile(path, 'utf-8')\<close>: a path with no readable file rejects.\<close>

definition fs_readFile :: "string \<Rightarrow> string prog" where
  "fs_readFile p = andThen (emit (ReadFile p))
     (\<lambda>_ w. case files w p of None \<Rightarrow> (Inl (FsError p), w) | Some s \<Rightarrow> (Inr s, w))"

text \<open>\<^verbatim>\<open>JSON.parse(text)\<close>: throws on text that is not JSON.\<close>

definition parse :: "deps \<Rightarrow> string \<Rightarrow> json prog" where
  "parse d s = (case JSON_parse d s of None \<Rightarrow> throw (SyntaxError s) | Some v \<Rightarrow> resolve v)"

text \<open>\<^verbatim>\<open>await axios.post(url, body)\<close>\<close>

definition post :: "deps \<Rightarrow> string \<Rightarrow> vp \<Rightarrow> response prog" where
  "post d url body = andThen (emit (Post url body))
     (\<lambda>_ w. (axios_post d url body, w))"

text \<open>\<^verbatim>\<open>await writeFile(path, vp)\<close> of \<^verbatim>\<open>utils.js\<close>\<close>

definition utils_writeFile :: "deps \<Rightarrow> string \<Rightarrow> vp \<Rightarrow> unit prog" where
  "utils_writeFile d p v = andThen (emit (WriteFile p v)) (\<lambda>_. external (writeFile d p v))"

section \<open>The compliance submission client\<close>

text \<open>
  \<^verbatim>\<open>signCredentials\<close>, lines 21 to 48. The two texts logged through chalk start with an emoji
  in the source, left out here.
\<close>

definition signCredentials :: "deps \<Rightarrow> json list \<Rightarrow> json prog" where
  "signCredentials d verifiableCredentials =
    (let config = getConfig d;
         verifiablePresentation = buildVerifiablePresentation d verifiableCredentials
     in
     andThen (logger LInfo (Text ''Sending Verifiable Presentation to Compliance API'')) (\<lambda>_.
     andThen (logger LInfo (Text (''POST -> '' @ urlAPICompliance config))) (\<lambda>_.
     andThen (logger LDebug (Presentation verifiablePresentation)) (\<lambda>_.
     try_catch
       (andThen (post d (urlAPICompliance config) verifiablePresentation) (\<lambda>res.
        andThen (logger LInfo (Text (chalk_green d ''Compliance success''))) (\<lambda>_.
        andThen (logger LDebug (Doc (data res))) (\<lambda>_.
        resolve (data res)))))
       (\<lambda>err.
        andThen (logger LError (Text (chalk_red d ''Compliance error''))) (\<lambda>_.
        let errMsg =
          (case err of
             AxiosError m (Some r) \<Rightarrow> if truthy (data r) then Payload (data r) else Raw err
           | _ \<Rightarrow> Raw err)
        in
        andThen (logger LError (Failure errMsg)) (\<lambda>_.
        throw (Error (''Error in Compliance API request: '' @ JSON_stringify d errMsg)))))))))"

section \<open>The pipeline orchestrator\<close>

text \<open>\<^verbatim>\<open>actionCredentials\<close>, lines 50 to 119: the build workflow.\<close>

definition actionCredentials :: "deps \<Rightarrow> unit prog" where
  "actionCredentials d =
    andThen (logger LInfo (Text ''Building Participant Verifiable Credential'')) (\<lambda>_.
    andThen (invoke BuildParticipantVC (buildParticipantVC d)) (\<lambda>vcParticipant.
    andThen (logger LDebug (Doc vcParticipant)) (\<lambda>_.
    andThen (logger LInfo (Text ''Building Legal Registration Number Verifiable Credential'')) (\<lambda>_.
    andThen (invoke BuildLegalRegistrationNumberVC (buildLegalRegistrationNumberVC d)) (\<lambda>vcLRN.
    andThen (logger LDebug (Doc vcLRN)) (\<lambda>_.
    andThen (logger LInfo (Text ''Building Terms and Conditions Verifiable Credential'')) (\<lambda>_.
    andThen (invoke BuildTermsConditionsVC (buildTermsConditionsVC d)) (\<lambda>vcTC.
    andThen (logger LDebug (Doc vcTC)) (\<lambda>_.
    andThen (logger LInfo (Text ''Building Verifiable Credentials for Resources'')) (\<lambda>_.
    let config = getConfig d;
        virtResourceName = getVirtualResourceName d (openAPISpec config);
        instVirtResourceName = getInstantiatedVirtualResourceName d (openAPISpec config);
        virtResourceUrl = joinUrl d (baseUrl config) (virtResourceName @ ''.json'');
        instVirtResourceUrl = joinUrl d (baseUrl config) (instVirtResourceName @ ''.json'');
        virtResourceWritePath = path_join d (webserverDir config) (virtResourceName @ ''.json'');
        instVirtResourceWritePath = path_join d (webserverDir config) (instVirtResourceName @ ''.json'');
        resources =
          \<lparr> openAPIUrl = openAPISpec config,
            didIssuer = didWebId config,
            participantUrl = urlParticipant config,
            virtResourceUrl = virtResourceUrl,
            virtResourceWritePath = virtResourceWritePath,
            instVirtResourceUrl = instVirtResourceUrl,
            instVirtResourceWritePath = instVirtResourceWritePath \<rparr>
    in
    andThen (invoke (BuildOpenAPIResources resources) (buildOpenAPIResources d resources))
      (\<lambda>(vcIVR, vcVR).
    andThen (logger LDebug (Doc vcIVR)) (\<lambda>_.
    andThen (logger LDebug (Doc vcVR)) (\<lambda>_.
    andThen (logger LInfo (Text ''Building Verifiable Credential for Service Offering'')) (\<lambda>_.
    let offering =
          \<lparr> so_didIssuer = didWebId config,
            legalParticipantUrl = urlParticipant config,
            termsConditionsPath = pathTermsConditions config,
            termsConditionsUrl = urlTermsConditions config,
            serviceOfferingUrl = urlServiceOffering config,
            serviceOfferingWritePath = pathServiceOffering config,
            aggregatedResourceUrls = [virtResourceUrl] \<rparr>
    in
    andThen (invoke (BuildServiceOffering offering) (buildServiceOffering d offering)) (\<lambda>vcSO.
    logger LDebug (Doc vcSO))))))))))))))))"

text \<open>\<^verbatim>\<open>actionVP\<close>, lines 121 to 172: the present-and-sign workflow.\<close>

definition actionVP :: "deps \<Rightarrow> unit prog" where
  "actionVP d =
    (let config = getConfig d in
     andThen (fs_readFile (pathParticipant config)) (\<lambda>text.
     andThen (parse d text) (\<lambda>vcParticipant.
     andThen (fs_readFile (pathLRN config)) (\<lambda>text.
     andThen (parse d text) (\<lambda>vcLRN.
     andThen (fs_readFile (pathTermsConditions config)) (\<lambda>text.
     andThen (parse d text) (\<lambda>vcTC.
     andThen (fs_readFile (pathServiceOffering config)) (\<lambda>text.
     andThen (parse d text) (\<lambda>vcSO.
     let virtResourceName = getVirtualResourceName d (openAPISpec config);
         instVirtResourceName = getInstantiatedVirtualResourceName d (openAPISpec config);
         virtResourceWritePath = path_join d (webserverDir config) (virtResourceName @ ''.json'');
         instVirtResourceWritePath = path_join d (webserverDir config) (instVirtResourceName @ ''.json'')
     in
     andThen (fs_readFile virtResourceWritePath) (\<lambda>text.
     andThen (parse d text) (\<lambda>vcVR.
     andThen (fs_readFile instVirtResourceWritePath) (\<lambda>text.
     andThen (parse d text) (\<lambda>vcIVR.
     let verifiableCredentials = [vcParticipant, vcLRN, vcTC, vcSO] in
     andThen (signCredentials d verifiableCredentials) (\<lambda>vcCompliance.
     let vpResult =
           buildVerifiablePresentation d (verifiableCredentials @ [vcCompliance, vcVR, vcIVR])
     in
     andThen (logger LInfo (Text (''Writing resulting Verifiable Presentation to ''
                @ pathVerifiablePresentation config))) (\<lambda>_.
     utils_writeFile d (pathVerifiablePresentation config) vpResult)))))))))))))))"

text \<open>The command table registered on \<^verbatim>\<open>program\<close>, lines 174 to 198.\<close>

record command =
  cmd_name :: string
  cmd_description :: string
  cmd_action :: "unit prog"

definition program :: "deps \<Rightarrow> command list" where
  "program d =
    [ \<lparr> cmd_name = ''did'',
        cmd_description =
          ''Build the DID document that represents the identity of the participant'',
        cmd_action = invoke WriteDIDFile (writeDIDFile d) \<rparr>,
      \<lparr> cmd_name = ''credentials'',
        cmd_description = ''Build and sign the Verifiable Credentials'',
        cmd_action = actionCredentials d \<rparr>,
      \<lparr> cmd_name = ''vp'',
        cmd_description = ''Build and sign the VP'',
        cmd_action = actionVP d \<rparr> ]"

text \<open>The command that \<^verbatim>\<open>program.parse()\<close> selects for a command name, if one is registered.\<close>

definition program_parse :: "deps \<Rightarrow> string \<Rightarrow> command option" where
  "program_parse d argv = find (\<lambda>c. cmd_name c = argv) (program d)"

section \<open>The presentation assembler\<close>

text \<open>
  Modelled from the spec: \<^verbatim>\<open>buildVerifiablePresentation\<close> of \<^verbatim>\<open>utils.js\<close>, which is not
  among the sources. The specification describes it as a pure function that wraps the input
  sequence, preserving order, under the VP envelope: a context, a type including
  \<^verbatim>\<open>VerifiablePresentation\<close>, and the credentials. The context is not fixed by the
  specification and is a parameter.
\<close>

definition buildVerifiablePresentation_spec :: "string list \<Rightarrow> json list \<Rightarrow> vp" where
  "buildVerifiablePresentation_spec ctx verifiableCredentials =
     \<lparr> vp_context = ctx,
       vp_type = [''VerifiablePresentation''],
       verifiableCredential = verifiableCredentials \<rparr>"

section \<open>Projections of a trace\<close>

text \<open>The requests sent, the files read, the files written and the builders called, each in
  program order.\<close>

fun posts :: "event list \<Rightarrow> (string \<times> vp) list" where
  "posts [] = []"
| "posts (Post u b # es) = (u, b) # posts es"
| "posts (e # es) = posts es"

fun reads :: "event list \<Rightarrow> string list" where
  "reads [] = []"
| "reads (ReadFile p # es) = p # reads es"
| "reads (e # es) = reads es"

fun writes :: "event list \<Rightarrow> (string \<times> vp) list" where
  "writes [] = []"
| "writes (WriteFile p v # es) = (p, v) # writes es"
| "writes (e # es) = writes es"

fun calls :: "event list \<Rightarrow> call list" where
  "calls [] = []"
| "calls (Call c # es) = c # calls es"
| "calls (e # es) = calls es"

text \<open>The events that follow the first request of a trace.\<close>

fun after_post :: "event list \<Rightarrow> event list" where
  "after_post [] = []"
| "after_post (Post u b # es) = es"
| "after_post (e # es) = after_post es"

text \<open>A path holds a document when \<^verbatim>\<open>fs.readFile\<close> resolves and \<^verbatim>\<open>JSON.parse\<close> returns.\<close>

definition readable :: "deps \<Rightarrow> fsys \<Rightarrow> string \<Rightarrow> bool" where
  "readable d fs p = (case fs p of None \<Rightarrow> False | Some s \<Rightarrow> JSON_parse d s \<noteq> None)"

section \<open>A concrete installation\<close>

text \<open>Settings, helpers and collaborators on which the workflows can be run.\<close>

definition demo_config :: config where
  "demo_config =
    \<lparr> urlAPICompliance = ''api'',
      openAPISpec = ''oa'',
      baseUrl = ''u'',
      webserverDir = ''w'',
      didWebId = ''did'',
      urlParticipant = ''up'',
      urlTermsConditions = ''ut'',
      urlServiceOffering = ''us'',
      pathParticipant = ''p'',
      pathLRN = ''l'',
      pathTermsConditions = ''t'',
      pathServiceOffering = ''s'',
      pathVerifiablePresentation = ''vp'' \<rparr>"

fun demo_stringify :: "err_msg \<Rightarrow> string" where
  "demo_stringify (Payload (JStr s)) = s"
| "demo_stringify (Payload j) = ''json''"
| "demo_stringify (Raw e) = ''err''"

definition demo_deps :: deps where
  "demo_deps =
    \<lparr> getConfig = demo_config,
      getVirtualResourceName = (\<lambda>s. s @ ''v''),
      getInstantiatedVirtualResourceName = (\<lambda>s. s @ ''i''),
      joinUrl = (\<lambda>a b. a @ ''/'' @ b),
      path_join = (\<lambda>a b. a @ ''/'' @ b),
      JSON_parse = (\<lambda>s. if s = [] then None else Some (JStr s)),
      JSON_stringify = demo_stringify,
      chalk_green = (\<lambda>s. s),
      chalk_red = (\<lambda>s. s),
      buildVerifiablePresentation = buildVerifiablePresentation_spec [''c''],
      axios_post = (\<lambda>u b. Inr (Response 200 (JStr ''ok''))),
      buildParticipantVC = (\<lambda>fs. (Inr (JStr ''P''), fs(''p'' \<mapsto> ''P''))),
      buildLegalRegistrationNumberVC = (\<lambda>fs. (Inr (JStr ''L''), fs(''l'' \<mapsto> ''L''))),
      buildTermsConditionsVC = (\<lambda>fs. (Inr (JStr ''T''), fs(''t'' \<mapsto> ''T''))),
      buildOpenAPIResources =
        (\<lambda>a fs. (Inr (JStr ''I'', JStr ''V''),
                 fs(virtResourceWritePath a \<mapsto> ''V'', instVirtResourceWritePath a \<mapsto> ''I''))),
      buildServiceOffering =
        (\<lambda>a fs. (Inr (JStr ''S''), fs(serviceOfferingWritePath a \<mapsto> ''S''))),
      writeFile = (\<lambda>p v fs. (Inr (), fs(p \<mapsto> ''VP''))),
      writeDIDFile = (\<lambda>fs. (Inr (), fs(''d'' \<mapsto> ''D''))) \<rparr>"

text \<open>The file system the build workflow leaves behind on this installation.\<close>

definition demo_files :: fsys where
  "demo_files =
    [''p'' \<mapsto> ''P'', ''l'' \<mapsto> ''L'', ''t'' \<mapsto> ''T'', ''s'' \<mapsto> ''S'',
     ''w/oav.json'' \<mapsto> ''V'', ''w/oai.json'' \<mapsto> ''I'']"

text \<open>Two rejections of the compliance request that differ in status and message and carry
  the same body.\<close>

definition rejected_400 :: error where
  "rejected_400 = AxiosError ''400'' (Some (Response 400 (JObj [(''error'', JStr ''invalid'')])))"

definition rejected_500 :: error where
  "rejected_500 = AxiosError ''500'' (Some (Response 500 (JObj [(''error'', JStr ''invalid'')])))"

definition demo_world :: world where
  "demo_world = \<lparr>files = demo_files, trace = []\<rparr>"

text \<open>The same installation with a compliance endpoint that rejects every request with the
  given error, and with a registration-number builder that rejects.\<close>

definition rejecting_deps :: "error \<Rightarrow> deps" where
  "rejecting_deps e = demo_deps\<lparr>axios_post := (\<lambda>u b. Inl e)\<rparr>"

definition lrn_failing_deps :: deps where
  "lrn_failing_deps =
     demo_deps\<lparr>buildLegalRegistrationNumberVC := (\<lambda>fs. (Inl (Rejected ''lrn''), fs))\<rparr>"

section \<open>Running the steps\<close>

lemma posts_append: "posts (xs @ ys) = posts xs @ posts ys"
  by (induction xs rule: posts.induct) simp_all

lemma reads_append: "reads (xs @ ys) = reads xs @ reads ys"
  by (induction xs rule: reads.induct) simp_all

lemma writes_append: "writes (xs @ ys) = writes xs @ writes ys"
  by (induction xs rule: writes.induct) simp_all

lemma calls_append: "calls (xs @ ys) = calls xs @ calls ys"
  by (induction xs rule: calls.induct) simp_all

lemmas proj_append = posts_append reads_append writes_append calls_append

lemma andThen_emit: "andThen (emit e) f w = f () (w\<lparr>trace := trace w @ [e]\<rparr>)"
  by (simp add: andThen_def emit_def)

lemma andThen_logger: "andThen (logger l x) f w = f () (w\<lparr>trace := trace w @ [Log l x]\<rparr>)"
  by (simp add: logger_def andThen_emit)

text \<open>The whole behaviour of \<^verbatim>\<open>signCredentials\<close>, by the answer of the endpoint.\<close>

lemma signCredentials_run:
  "signCredentials d vcs w =
    (let url = urlAPICompliance (getConfig d);
         body = buildVerifiablePresentation d vcs;
         sent = [Log LInfo (Text ''Sending Verifiable Presentation to Compliance API''),
                 Log LInfo (Text (''POST -> '' @ url)),
                 Log LDebug (Presentation body),
                 Post url body]
     in case axios_post d url body of
          Inr res \<Rightarrow>
            (Inr (data res),
             w\<lparr>trace := trace w @ sent @
                 [Log LInfo (Text (chalk_green d ''Compliance success'')),
                  Log LDebug (Doc (data res))]\<rparr>)
        | Inl err \<Rightarrow>
            (let errMsg =
               (case err of
                  AxiosError m (Some r) \<Rightarrow> if truthy (data r) then Payload (data r) else Raw err
                | _ \<Rightarrow> Raw err)
             in (Inl (Error (''Error in Compliance API request: '' @ JSON_stringify d errMsg)),
                 w\<lparr>trace := trace w @ sent @
                     [Log LError (Text (chalk_red d ''Compliance error'')),
                      Log LError (Failure errMsg)]\<rparr>)))"
  by (simp add: signCredentials_def Let_def andThen_logger try_catch_def post_def andThen_emit
      andThen_def resolve_def throw_def logger_def emit_def split: sum.splits)

lemma andThen_read_parse:
  "andThen (fs_readFile p) (\<lambda>t. andThen (parse d t) f) w =
    (case files w p of
       None \<Rightarrow> (Inl (FsError p), w\<lparr>trace := trace w @ [ReadFile p]\<rparr>)
     | Some s \<Rightarrow>
        (case JSON_parse d s of
           None \<Rightarrow> (Inl (SyntaxError s), w\<lparr>trace := trace w @ [ReadFile p]\<rparr>)
         | Some v \<Rightarrow> f v (w\<lparr>trace := trace w @ [ReadFile p]\<rparr>)))"
  by (simp add: fs_readFile_def parse_def andThen_def emit_def resolve_def throw_def
      split: option.splits)

lemma utils_writeFile_run:
  "utils_writeFile d p v w =
     (fst (writeFile d p v (files w)),
      w\<lparr>files := snd (writeFile d p v (files w)), trace := trace w @ [WriteFile p v]\<rparr>)"
  by (simp add: utils_writeFile_def andThen_emit external_def split: prod.splits)

lemma actionVP_reads_ok:
  assumes "files w (pathParticipant (getConfig d)) = Some tP" "JSON_parse d tP = Some vcP"
    and "files w (pathLRN (getConfig d)) = Some tL" "JSON_parse d tL = Some vcL"
    and "files w (pathTermsConditions (getConfig d)) = Some tT" "JSON_parse d tT = Some vcT"
    and "files w (pathServiceOffering (getConfig d)) = Some tS" "JSON_parse d tS = Some vcS"
    and "files w (path_join d (webserverDir (getConfig d))
            (getVirtualResourceName d (openAPISpec (getConfig d)) @ ''.json'')) = Some tV"
      "JSON_parse d tV = Some vcV"
    and "files w (path_join d (webserverDir (getConfig d))
            (getInstantiatedVirtualResourceName d (openAPISpec (getConfig d)) @ ''.json'')) = Some tI"
      "JSON_parse d tI = Some vcI"
  shows "actionVP d w =
    andThen (signCredentials d [vcP, vcL, vcT, vcS]) (\<lambda>vcCompliance.
    andThen (logger LInfo (Text (''Writing resulting Verifiable Presentation to ''
                @ pathVerifiablePresentation (getConfig d)))) (\<lambda>_.
    utils_writeFile d (pathVerifiablePresentation (getConfig d))
      (buildVerifiablePresentation d [vcP, vcL, vcT, vcS, vcCompliance, vcV, vcI])))
    (w\<lparr>trace := trace w @
        [ReadFile (pathParticipant (getConfig d)),
         ReadFile (pathLRN (getConfig d)),
         ReadFile (pathTermsConditions (getConfig d)),
         ReadFile (pathServiceOffering (getConfig d)),
         ReadFile (path_join d (webserverDir (getConfig d))
            (getVirtualResourceName d (openAPISpec (getConfig d)) @ ''.json'')),
         ReadFile (path_join d (webserverDir (getConfig d))
            (getInstantiatedVirtualResourceName d (openAPISpec (getConfig d)) @ ''.json''))]\<rparr>)"
  using assms by (simp add: actionVP_def Let_def andThen_read_parse)

lemma andThen_signCredentials:
  "andThen (signCredentials d vcs) f w =
    (let url = urlAPICompliance (getConfig d);
         body = buildVerifiablePresentation d vcs;
         sent = [Log LInfo (Text ''Sending Verifiable Presentation to Compliance API''),
                 Log LInfo (Text (''POST -> '' @ url)),
                 Log LDebug (Presentation body),
                 Post url body]
     in case axios_post d url body of
          Inr res \<Rightarrow>
            f (data res)
             (w\<lparr>trace := trace w @ sent @
                 [Log LInfo (Text (chalk_green d ''Compliance success'')),
                  Log LDebug (Doc (data res))]\<rparr>)
        | Inl err \<Rightarrow>
            (let errMsg =
               (case err of
                  AxiosError m (Some r) \<Rightarrow> if truthy (data r) then Payload (data r) else Raw err
                | _ \<Rightarrow> Raw err)
             in (Inl (Error (''Error in Compliance API request: '' @ JSON_stringify d errMsg)),
                 w\<lparr>trace := trace w @ sent @
                     [Log LError (Text (chalk_red d ''Compliance error'')),
                      Log LError (Failure errMsg)]\<rparr>)))"
  by (simp add: andThen_def signCredentials_run Let_def split: sum.splits)

lemma actionVP_after_reads:
  "andThen (signCredentials d vcs) (\<lambda>vcCompliance.
    andThen (logger LInfo (Text t)) (\<lambda>_. utils_writeFile d p (g vcCompliance))) w =
   (let url = urlAPICompliance (getConfig d);
        body = buildVerifiablePresentation d vcs;
        sent = [Log LInfo (Text ''Sending Verifiable Presentation to Compliance API''),
                 Log LInfo (Text (''POST -> '' @ url)),
                 Log LDebug (Presentation body),
                 Post url body]
    in case axios_post d url body of
          Inr res \<Rightarrow>
            (fst (writeFile d p (g (data res)) (files w)),
             w\<lparr>files := snd (writeFile d p (g (data res)) (files w)),
               trace := trace w @ sent @
                 [Log LInfo (Text (chalk_green d ''Compliance success'')),
                  Log LDebug (Doc (data res)),
                  Log LInfo (Text t),
                  WriteFile p (g (data res))]\<rparr>)
        | Inl err \<Rightarrow>
            (let errMsg =
               (case err of
                  AxiosError m (Some r) \<Rightarrow> if truthy (data r) then Payload (data r) else Raw err
                | _ \<Rightarrow> Raw err)
             in (Inl (Error (''Error in Compliance API request: '' @ JSON_stringify d errMsg)),
                 w\<lparr>trace := trace w @ sent @
                     [Log LError (Text (chalk_red d ''Compliance error'')),
                      Log LError (Failure errMsg)]\<rparr>)))"
  by (simp add: andThen_signCredentials Let_def andThen_logger utils_writeFile_run split: sum.splits)

lemma andThen_invoke:
  "andThen (invoke c f) g w =
    (case f (files w) of
       (Inl e, fs) \<Rightarrow> (Inl e, w\<lparr>trace := trace w @ [Call c], files := fs\<rparr>)
     | (Inr x, fs) \<Rightarrow> g x (w\<lparr>trace := trace w @ [Call c], files := fs\<rparr>))"
  by (simp add: invoke_def andThen_def emit_def external_def split: prod.splits sum.splits)

lemma invoke_run:
  "invoke c f w = (fst (f (files w)), w\<lparr>trace := trace w @ [Call c], files := snd (f (files w))\<rparr>)"
  by (simp add: invoke_def andThen_def emit_def external_def split: prod.splits sum.splits)

lemma logger_run: "logger l x w = (Inr (), w\<lparr>trace := trace w @ [Log l x]\<rparr>)"
  by (simp add: logger_def emit_def)

lemma actionCredentials_posts:
  "posts (trace (snd (actionCredentials d w))) = posts (trace w)"
  by (simp add: actionCredentials_def Let_def andThen_logger andThen_invoke logger_run posts_append
      split: sum.splits prod.splits)

text \<open>The whole behaviour of \<^verbatim>\<open>actionCredentials\<close>, by the outcomes of the builders.\<close>

lemma actionCredentials_run:
  assumes "c = getConfig d"
    and "vurl = joinUrl d (baseUrl c) (getVirtualResourceName d (openAPISpec c) @ ''.json'')"
    and "ra = \<lparr> openAPIUrl = openAPISpec c, didIssuer = didWebId c,
                 participantUrl = urlParticipant c,
                 virtResourceUrl = vurl,
                 virtResourceWritePath =
                   path_join d (webserverDir c) (getVirtualResourceName d (openAPISpec c) @ ''.json''),
                 instVirtResourceUrl =
                   joinUrl d (baseUrl c) (getInstantiatedVirtualResourceName d (openAPISpec c) @ ''.json''),
                 instVirtResourceWritePath =
                   path_join d (webserverDir c)
                     (getInstantiatedVirtualResourceName d (openAPISpec c) @ ''.json'') \<rparr>"
    and "sa = \<lparr> so_didIssuer = didWebId c, legalParticipantUrl = urlParticipant c,
                 termsConditionsPath = pathTermsConditions c,
                 termsConditionsUrl = urlTermsConditions c,
                 serviceOfferingUrl = urlServiceOffering c,
                 serviceOfferingWritePath = pathServiceOffering c,
                 aggregatedResourceUrls = [vurl] \<rparr>"
    and "buildParticipantVC d fs0 = (r1, fs1)"
    and "buildLegalRegistrationNumberVC d fs1 = (r2, fs2)"
    and "buildTermsConditionsVC d fs2 = (r3, fs3)"
    and "buildOpenAPIResources d ra fs3 = (r4, fs4)"
    and "buildServiceOffering d sa fs4 = (r5, fs5)"
    and "run = actionCredentials d \<lparr>files = fs0, trace = []\<rparr>"
  shows "calls (trace (snd run)) =
          (if isl r1 then [BuildParticipantVC]
           else if isl r2 then [BuildParticipantVC, BuildLegalRegistrationNumberVC]
           else if isl r3 then
             [BuildParticipantVC, BuildLegalRegistrationNumberVC, BuildTermsConditionsVC]
           else if isl r4 then
             [BuildParticipantVC, BuildLegalRegistrationNumberVC, BuildTermsConditionsVC,
              BuildOpenAPIResources ra]
           else
             [BuildParticipantVC, BuildLegalRegistrationNumberVC, BuildTermsConditionsVC,
              BuildOpenAPIResources ra, BuildServiceOffering sa])
    \<and> fst run =
          (if isl r1 then Inl (projl r1) else if isl r2 then Inl (projl r2)
           else if isl r3 then Inl (projl r3) else if isl r4 then Inl (projl r4)
           else if isl r5 then Inl (projl r5) else Inr ())
    \<and> files (snd run) =
          (if isl r1 then fs1 else if isl r2 then fs2 else if isl r3 then fs3
           else if isl r4 then fs4 else fs5)"
  using assms(5-9) unfolding assms(1-4,10)
  by (simp add: actionCredentials_def Let_def andThen_logger andThen_invoke logger_run
      split: sum.splits prod.splits)

lemma actionVP_reads_prefix:
  "prefix (reads (trace (snd (actionVP d \<lparr>files = fs, trace = []\<rparr>))))
     [pathParticipant (getConfig d), pathLRN (getConfig d), pathTermsConditions (getConfig d),
      pathServiceOffering (getConfig d),
      path_join d (webserverDir (getConfig d))
        (getVirtualResourceName d (openAPISpec (getConfig d)) @ ''.json''),
      path_join d (webserverDir (getConfig d))
        (getInstantiatedVirtualResourceName d (openAPISpec (getConfig d)) @ ''.json'')]"
  by (simp add: actionVP_def Let_def andThen_read_parse actionVP_after_reads
      split: option.splits sum.splits)

lemma actionVP_reads_all:
  "posts (trace (snd (actionVP d \<lparr>files = fs, trace = []\<rparr>))) \<noteq> [] \<longrightarrow>
   reads (trace (snd (actionVP d \<lparr>files = fs, trace = []\<rparr>))) =
     [pathParticipant (getConfig d), pathLRN (getConfig d), pathTermsConditions (getConfig d),
      pathServiceOffering (getConfig d),
      path_join d (webserverDir (getConfig d))
        (getVirtualResourceName d (openAPISpec (getConfig d)) @ ''.json''),
      path_join d (webserverDir (getConfig d))
        (getInstantiatedVirtualResourceName d (openAPISpec (getConfig d)) @ ''.json'')]"
  by (simp add: actionVP_def Let_def andThen_read_parse actionVP_after_reads
      split: option.splits sum.splits)

lemmas demo = demo_deps_def demo_config_def demo_files_def demo_world_def

section \<open>Properties of the presentation assembler\<close>

text \<open>
  C4. The assembler is a function of its input alone (it takes no world and returns none, so
  it reads neither network nor disk), and the \<^verbatim>\<open>verifiableCredential\<close> sequence of its result
  is the input sequence, in the same order; in particular for the three credentials A, B, C.
\<close>

theorem buildVerifiablePresentation_preserves_order:
  "verifiableCredential (buildVerifiablePresentation_spec ctx vcs) = vcs
   \<and> verifiableCredential (buildVerifiablePresentation_spec ctx [A, B, C]) = [A, B, C]"
  by (simp add: buildVerifiablePresentation_spec_def)

section \<open>Properties of the compliance submission client\<close>

text \<open>
  C5. Every call of \<^verbatim>\<open>signCredentials\<close> builds the presentation of the credentials it was
  given with the assembler, sends it to the configured compliance endpoint in exactly one
  request, whether that request succeeds or not, leaves the file system alone, and, when the
  endpoint answers, returns the body of the answer as it is.
\<close>

theorem signCredentials_single_post:
  "posts (trace (snd (signCredentials d vcs w)))
     = posts (trace w) @ [(urlAPICompliance (getConfig d), buildVerifiablePresentation d vcs)]
   \<and> files (snd (signCredentials d vcs w)) = files w
   \<and> (\<forall>res. axios_post d (urlAPICompliance (getConfig d)) (buildVerifiablePresentation d vcs) = Inr res
        \<longrightarrow> fst (signCredentials d vcs w) = Inr (data res))"
  by (simp add: signCredentials_run Let_def posts_append split: sum.splits)

theorem signCredentials_single_post_witness:
  "axios_post demo_deps ''api'' (buildVerifiablePresentation demo_deps [JStr ''P''])
     = Inr (Response 200 (JStr ''ok''))
   \<and> posts (trace (snd (signCredentials demo_deps [JStr ''P''] \<lparr>files = demo_files, trace = []\<rparr>)))
     = [(''api'', buildVerifiablePresentation_spec [''c''] [JStr ''P''])]
   \<and> fst (signCredentials demo_deps [JStr ''P''] \<lparr>files = demo_files, trace = []\<rparr>) = Inr (JStr ''ok'')"
  using signCredentials_single_post [of demo_deps "[JStr ''P'']" "\<lparr>files = demo_files, trace = []\<rparr>"]
  by (simp add: demo_deps_def demo_config_def)

text \<open>
  C3, as amended. When the compliance request fails, \<^verbatim>\<open>signCredentials\<close> throws one error,
  whose message is the fixed prefix followed by the serialisation of one value: the body of the
  response when the caught error has a response with a truthy body, and the caught error itself
  otherwise (no response, or a body that is null, false, zero or the empty string). That value
  is the last thing logged, at error level, before the throw.
\<close>

theorem signCredentials_error_content:
  assumes "axios_post d (urlAPICompliance (getConfig d)) (buildVerifiablePresentation d vcs) = Inl err"
    and "run = signCredentials d vcs w"
  shows "(\<forall>m r. err = AxiosError m (Some r) \<and> truthy (data r) \<longrightarrow>
            fst run = Inl (Error (''Error in Compliance API request: ''
                                   @ JSON_stringify d (Payload (data r))))
          \<and> last (trace (snd run)) = Log LError (Failure (Payload (data r))))
    \<and> ((\<forall>m r. err = AxiosError m (Some r) \<longrightarrow> \<not> truthy (data r)) \<longrightarrow>
            fst run = Inl (Error (''Error in Compliance API request: ''
                                   @ JSON_stringify d (Raw err)))
          \<and> last (trace (snd run)) = Log LError (Failure (Raw err)))
    \<and> isl (fst run)
    \<and> files (snd run) = files w"
  using assms(1) unfolding assms(2)
  by (auto simp add: signCredentials_run Let_def split: error.splits option.splits)

theorem signCredentials_error_content_witness:
  "axios_post (rejecting_deps rejected_400) ''api''
       (buildVerifiablePresentation (rejecting_deps rejected_400) [JStr ''P''])
     = Inl (AxiosError ''400'' (Some (Response 400 (JObj [(''error'', JStr ''invalid'')]))))
   \<and> truthy (JObj [(''error'', JStr ''invalid'')])
   \<and> fst (signCredentials (rejecting_deps rejected_400) [JStr ''P''] demo_world)
     = Inl (Error ''Error in Compliance API request: json'')
   \<and> last (trace (snd (signCredentials (rejecting_deps rejected_400) [JStr ''P''] demo_world)))
     = Log LError (Failure (Payload (JObj [(''error'', JStr ''invalid'')])))
   \<and> fst (signCredentials (rejecting_deps (AxiosError ''ECONNREFUSED'' None)) [JStr ''P''] demo_world)
     = Inl (Error ''Error in Compliance API request: err'')
   \<and> last (trace (snd (signCredentials (rejecting_deps (AxiosError ''ECONNREFUSED'' None))
       [JStr ''P''] demo_world)))
     = Log LError (Failure (Raw (AxiosError ''ECONNREFUSED'' None)))"
  using signCredentials_error_content [OF _ refl, of "rejecting_deps rejected_400" "[JStr ''P'']"
      rejected_400 demo_world]
    signCredentials_error_content [OF _ refl, of "rejecting_deps (AxiosError ''ECONNREFUSED'' None)"
      "[JStr ''P'']" "AxiosError ''ECONNREFUSED'' None" demo_world]
  by (simp add: rejecting_deps_def rejected_400_def demo)

text \<open>
  C3, as stated, fails: the thrown error is a message and nothing more, and when the response
  has a body the caught error is neither attached to it nor logged. Two rejections that differ
  in status and message and carry the same body leave the same thrown error and the same trace.
\<close>

theorem signCredentials_drops_cause:
  "rejected_400 \<noteq> rejected_500
   \<and> signCredentials (rejecting_deps rejected_400) [JStr ''P''] demo_world
     = signCredentials (rejecting_deps rejected_500) [JStr ''P''] demo_world
   \<and> fst (signCredentials (rejecting_deps rejected_400) [JStr ''P''] demo_world)
     = Inl (Error ''Error in Compliance API request: json'')"
  by (simp add: signCredentials_run Let_def rejected_400_def rejected_500_def rejecting_deps_def demo)

section \<open>Properties of the present-and-sign workflow\<close>

text \<open>
  C1. When the six documents can be read, the present-and-sign workflow hands exactly the four
  base credentials, Participant, LRN, Terms and Conditions, Service Offering, in that order,
  to \<^verbatim>\<open>signCredentials\<close>; the one request it sends carries the presentation of those four.
  When the endpoint answers, the one file written is the configured VP path, and what is
  written is the presentation of the seven credentials Participant, LRN, Terms and Conditions,
  Service Offering, compliance credential, virtual resource, instantiated virtual resource, in
  that order. The outcome of the workflow is the outcome of that write.
\<close>

theorem actionVP_final_presentation:
  assumes "c = getConfig d"
    and "pV = path_join d (webserverDir c) (getVirtualResourceName d (openAPISpec c) @ ''.json'')"
    and "pI = path_join d (webserverDir c)
                (getInstantiatedVirtualResourceName d (openAPISpec c) @ ''.json'')"
    and "files w (pathParticipant c) = Some tP" "JSON_parse d tP = Some vcP"
    and "files w (pathLRN c) = Some tL" "JSON_parse d tL = Some vcL"
    and "files w (pathTermsConditions c) = Some tT" "JSON_parse d tT = Some vcT"
    and "files w (pathServiceOffering c) = Some tS" "JSON_parse d tS = Some vcS"
    and "files w pV = Some tV" "JSON_parse d tV = Some vcV"
    and "files w pI = Some tI" "JSON_parse d tI = Some vcI"
    and "vp7 = (\<lambda>vcC. buildVerifiablePresentation d [vcP, vcL, vcT, vcS, vcC, vcV, vcI])"
  shows "actionVP d w =
           andThen (signCredentials d [vcP, vcL, vcT, vcS]) (\<lambda>vcCompliance.
           andThen (logger LInfo (Text (''Writing resulting Verifiable Presentation to ''
                      @ pathVerifiablePresentation c))) (\<lambda>_.
           utils_writeFile d (pathVerifiablePresentation c) (vp7 vcCompliance)))
           (w\<lparr>trace := trace w @ map ReadFile
                [pathParticipant c, pathLRN c, pathTermsConditions c, pathServiceOffering c,
                 pV, pI]\<rparr>)
    \<and> posts (trace (snd (actionVP d w)))
         = posts (trace w) @ [(urlAPICompliance c, buildVerifiablePresentation d [vcP, vcL, vcT, vcS])]
    \<and> (\<forall>res. axios_post d (urlAPICompliance c) (buildVerifiablePresentation d [vcP, vcL, vcT, vcS])
                 = Inr res
          \<longrightarrow> writes (trace (snd (actionVP d w)))
                = writes (trace w) @ [(pathVerifiablePresentation c, vp7 (data res))]
            \<and> fst (actionVP d w)
                = fst (writeFile d (pathVerifiablePresentation c) (vp7 (data res)) (files w))
            \<and> files (snd (actionVP d w))
                = snd (writeFile d (pathVerifiablePresentation c) (vp7 (data res)) (files w)))"
  using assms(4-15) unfolding assms(1-3,16)
  by (simp add: actionVP_reads_ok actionVP_after_reads Let_def proj_append utils_writeFile_run
      split: sum.splits)

theorem actionVP_final_presentation_witness:
  "map (files demo_world) [''p'', ''l'', ''t'', ''s'', ''w/oav.json'', ''w/oai.json'']
     = map Some [''P'', ''L'', ''T'', ''S'', ''V'', ''I'']
   \<and> map (JSON_parse demo_deps) [''P'', ''L'', ''T'', ''S'', ''V'', ''I'']
     = map Some [JStr ''P'', JStr ''L'', JStr ''T'', JStr ''S'', JStr ''V'', JStr ''I'']
   \<and> axios_post demo_deps ''api''
       (buildVerifiablePresentation demo_deps [JStr ''P'', JStr ''L'', JStr ''T'', JStr ''S''])
     = Inr (Response 200 (JStr ''ok''))
   \<and> posts (trace (snd (actionVP demo_deps demo_world)))
     = [(''api'', buildVerifiablePresentation demo_deps [JStr ''P'', JStr ''L'', JStr ''T'', JStr ''S''])]
   \<and> writes (trace (snd (actionVP demo_deps demo_world)))
     = [(''vp'', buildVerifiablePresentation demo_deps
          [JStr ''P'', JStr ''L'', JStr ''T'', JStr ''S'', JStr ''ok'', JStr ''V'', JStr ''I''])]
   \<and> fst (actionVP demo_deps demo_world) = Inr ()
   \<and> files (snd (actionVP demo_deps demo_world)) ''vp'' = Some ''VP''"
  using actionVP_final_presentation [OF refl refl refl, where d = demo_deps and w = demo_world
      and tP = "''P''" and vcP = "JStr ''P''" and tL = "''L''" and vcL = "JStr ''L''"
      and tT = "''T''" and vcT = "JStr ''T''" and tS = "''S''" and vcS = "JStr ''S''"
      and tV = "''V''" and vcV = "JStr ''V''" and tI = "''I''" and vcI = "JStr ''I''",
      OF _ _ _ _ _ _ _ _ _ _ _ _ refl, THEN conjunct2]
  by (simp add: demo)

text \<open>
  C2. When the six documents can be read and \<^verbatim>\<open>signCredentials\<close> throws, the workflow ends
  with that error, it writes nothing (no call of \<^verbatim>\<open>writeFile\<close>, to the VP path or to any
  other), and the file system, with the four base documents and the two resource documents,
  is the one it started from.
\<close>

theorem actionVP_compliance_failure:
  assumes "c = getConfig d"
    and "pV = path_join d (webserverDir c) (getVirtualResourceName d (openAPISpec c) @ ''.json'')"
    and "pI = path_join d (webserverDir c)
                (getInstantiatedVirtualResourceName d (openAPISpec c) @ ''.json'')"
    and "files w (pathParticipant c) = Some tP" "JSON_parse d tP = Some vcP"
    and "files w (pathLRN c) = Some tL" "JSON_parse d tL = Some vcL"
    and "files w (pathTermsConditions c) = Some tT" "JSON_parse d tT = Some vcT"
    and "files w (pathServiceOffering c) = Some tS" "JSON_parse d tS = Some vcS"
    and "files w pV = Some tV" "JSON_parse d tV = Some vcV"
    and "files w pI = Some tI" "JSON_parse d tI = Some vcI"
    and "fst (signCredentials d [vcP, vcL, vcT, vcS]
           (w\<lparr>trace := trace w @ map ReadFile
                [pathParticipant c, pathLRN c, pathTermsConditions c, pathServiceOffering c,
                 pV, pI]\<rparr>)) = Inl e"
  shows "fst (actionVP d w) = Inl e
    \<and> writes (trace (snd (actionVP d w))) = writes (trace w)
    \<and> files (snd (actionVP d w)) = files w"
  using assms(4-16) unfolding assms(1-3)
  by (simp add: actionVP_reads_ok actionVP_after_reads signCredentials_run Let_def proj_append
      split: sum.splits)

theorem actionVP_compliance_failure_witness:
  "map (files demo_world) [''p'', ''l'', ''t'', ''s'', ''w/oav.json'', ''w/oai.json'']
     = map Some [''P'', ''L'', ''T'', ''S'', ''V'', ''I'']
   \<and> fst (signCredentials (rejecting_deps rejected_400)
          [JStr ''P'', JStr ''L'', JStr ''T'', JStr ''S'']
          (demo_world\<lparr>trace := map ReadFile
             [''p'', ''l'', ''t'', ''s'', ''w/oav.json'', ''w/oai.json'']\<rparr>))
     = Inl (Error ''Error in Compliance API request: json'')
   \<and> fst (actionVP (rejecting_deps rejected_400) demo_world)
     = Inl (Error ''Error in Compliance API request: json'')
   \<and> writes (trace (snd (actionVP (rejecting_deps rejected_400) demo_world))) = []
   \<and> files (snd (actionVP (rejecting_deps rejected_400) demo_world)) = demo_files"
  using actionVP_compliance_failure [OF refl refl refl, where d = "rejecting_deps rejected_400"
      and w = demo_world and e = "Error ''Error in Compliance API request: json''"
      and tP = "''P''" and vcP = "JStr ''P''" and tL = "''L''" and vcL = "JStr ''L''"
      and tT = "''T''" and vcT = "JStr ''T''" and tS = "''S''" and vcS = "JStr ''S''"
      and tV = "''V''" and vcV = "JStr ''V''" and tI = "''I''" and vcI = "JStr ''I''"]
  by (simp add: demo rejecting_deps_def rejected_400_def signCredentials_run Let_def)

text \<open>
  C6. In every run of the present-and-sign workflow no file is read after the request to the
  compliance endpoint has been sent; and when one of the six documents (Participant, LRN, Terms
  and Conditions, Service Offering, virtual resource, instantiated virtual resource) is missing
  or is not JSON, the workflow ends in an error without having sent any request.
\<close>

theorem actionVP_reads_before_post:
  assumes "c = getConfig d"
    and "pV = path_join d (webserverDir c) (getVirtualResourceName d (openAPISpec c) @ ''.json'')"
    and "pI = path_join d (webserverDir c)
                (getInstantiatedVirtualResourceName d (openAPISpec c) @ ''.json'')"
    and "run = actionVP d \<lparr>files = fs, trace = []\<rparr>"
  shows "reads (after_post (trace (snd run))) = []
    \<and> (\<not> (readable d fs (pathParticipant c) \<and> readable d fs (pathLRN c)
           \<and> readable d fs (pathTermsConditions c) \<and> readable d fs (pathServiceOffering c)
           \<and> readable d fs pV \<and> readable d fs pI)
        \<longrightarrow> posts (trace (snd run)) = [] \<and> isl (fst run))"
  unfolding assms
  by (simp add: actionVP_def Let_def andThen_read_parse actionVP_after_reads readable_def
      split: option.splits sum.splits)

theorem actionVP_reads_before_post_witness:
  "reads (after_post (trace (snd (actionVP demo_deps demo_world)))) = []
   \<and> \<not> readable demo_deps (demo_files(''t'' := None)) ''t''
   \<and> posts (trace (snd (actionVP demo_deps \<lparr>files = demo_files(''t'' := None), trace = []\<rparr>))) = []
   \<and> fst (actionVP demo_deps \<lparr>files = demo_files(''t'' := None), trace = []\<rparr>) = Inl (FsError ''t'')"
  using actionVP_reads_before_post [OF refl refl refl refl, of demo_deps demo_files]
    actionVP_reads_before_post [OF refl refl refl refl, of demo_deps "demo_files(''t'' := None)"]
  by (simp add: demo readable_def actionVP_def Let_def andThen_read_parse)

section \<open>Properties of the build workflow\<close>

text \<open>
  C7. The build workflow calls its builders one after the other, each on the file system the
  previous one left: Participant, LRN, Terms and Conditions, the resource translator, Service
  Offering. The first builder that rejects ends the workflow with its error, and no later
  builder is called. The Service Offering builder receives, as its only aggregated resource,
  the virtual-resource URL that was handed to the resource translator.
\<close>

theorem actionCredentials_sequence:
  assumes "c = getConfig d"
    and "vurl = joinUrl d (baseUrl c) (getVirtualResourceName d (openAPISpec c) @ ''.json'')"
    and "ra = \<lparr> openAPIUrl = openAPISpec c, didIssuer = didWebId c,
                 participantUrl = urlParticipant c,
                 virtResourceUrl = vurl,
                 virtResourceWritePath =
                   path_join d (webserverDir c) (getVirtualResourceName d (openAPISpec c) @ ''.json''),
                 instVirtResourceUrl =
                   joinUrl d (baseUrl c) (getInstantiatedVirtualResourceName d (openAPISpec c) @ ''.json''),
                 instVirtResourceWritePath =
                   path_join d (webserverDir c)
                     (getInstantiatedVirtualResourceName d (openAPISpec c) @ ''.json'') \<rparr>"
    and "sa = \<lparr> so_didIssuer = didWebId c, legalParticipantUrl = urlParticipant c,
                 termsConditionsPath = pathTermsConditions c,
                 termsConditionsUrl = urlTermsConditions c,
                 serviceOfferingUrl = urlServiceOffering c,
                 serviceOfferingWritePath = pathServiceOffering c,
                 aggregatedResourceUrls = [vurl] \<rparr>"
    and "buildParticipantVC d fs0 = (r1, fs1)"
    and "buildLegalRegistrationNumberVC d fs1 = (r2, fs2)"
    and "buildTermsConditionsVC d fs2 = (r3, fs3)"
    and "buildOpenAPIResources d ra fs3 = (r4, fs4)"
    and "buildServiceOffering d sa fs4 = (r5, fs5)"
    and "run = actionCredentials d \<lparr>files = fs0, trace = []\<rparr>"
  shows "calls (trace (snd run)) =
          (if isl r1 then [BuildParticipantVC]
           else if isl r2 then [BuildParticipantVC, BuildLegalRegistrationNumberVC]
           else if isl r3 then
             [BuildParticipantVC, BuildLegalRegistrationNumberVC, BuildTermsConditionsVC]
           else if isl r4 then
             [BuildParticipantVC, BuildLegalRegistrationNumberVC, BuildTermsConditionsVC,
              BuildOpenAPIResources ra]
           else
             [BuildParticipantVC, BuildLegalRegistrationNumberVC, BuildTermsConditionsVC,
              BuildOpenAPIResources ra, BuildServiceOffering sa])
    \<and> fst run =
          (if isl r1 then Inl (projl r1) else if isl r2 then Inl (projl r2)
           else if isl r3 then Inl (projl r3) else if isl r4 then Inl (projl r4)
           else if isl r5 then Inl (projl r5) else Inr ())
    \<and> files (snd run) =
          (if isl r1 then fs1 else if isl r2 then fs2 else if isl r3 then fs3
           else if isl r4 then fs4 else fs5)"
  using assms by (rule actionCredentials_run)

theorem actionCredentials_sequence_witness:
  "buildLegalRegistrationNumberVC lrn_failing_deps [''p'' \<mapsto> ''P'']
     = (Inl (Rejected ''lrn''), [''p'' \<mapsto> ''P''])
   \<and> calls (trace (snd (actionCredentials lrn_failing_deps \<lparr>files = Map.empty, trace = []\<rparr>)))
     = [BuildParticipantVC, BuildLegalRegistrationNumberVC]
   \<and> fst (actionCredentials lrn_failing_deps \<lparr>files = Map.empty, trace = []\<rparr>) = Inl (Rejected ''lrn'')
   \<and> files (snd (actionCredentials lrn_failing_deps \<lparr>files = Map.empty, trace = []\<rparr>))
     = [''p'' \<mapsto> ''P'']
   \<and> fst (actionCredentials demo_deps \<lparr>files = Map.empty, trace = []\<rparr>) = Inr ()
   \<and> length (calls (trace (snd (actionCredentials demo_deps \<lparr>files = Map.empty, trace = []\<rparr>)))) = 5"
  using actionCredentials_sequence [OF refl refl refl refl _ _ _ _ _ refl,
      of lrn_failing_deps Map.empty "Inr (JStr ''P'')" "[''p'' \<mapsto> ''P'']"
        "Inl (Rejected ''lrn'')" "[''p'' \<mapsto> ''P'']"
        "Inr (JStr ''T'')" "[''p'' \<mapsto> ''P'', ''t'' \<mapsto> ''T'']"
        "Inr (JStr ''I'', JStr ''V'')"
        "[''p'' \<mapsto> ''P'', ''t'' \<mapsto> ''T'', ''w/oav.json'' \<mapsto> ''V'', ''w/oai.json'' \<mapsto> ''I'']"
        "Inr (JStr ''S'')"
        "[''p'' \<mapsto> ''P'', ''t'' \<mapsto> ''T'', ''w/oav.json'' \<mapsto> ''V'', ''w/oai.json'' \<mapsto> ''I'',
          ''s'' \<mapsto> ''S'']"]
    actionCredentials_sequence [OF refl refl refl refl _ _ _ _ _ refl,
      of demo_deps Map.empty "Inr (JStr ''P'')" "[''p'' \<mapsto> ''P'']"
        "Inr (JStr ''L'')" "[''p'' \<mapsto> ''P'', ''l'' \<mapsto> ''L'']"
        "Inr (JStr ''T'')" "[''p'' \<mapsto> ''P'', ''l'' \<mapsto> ''L'', ''t'' \<mapsto> ''T'']"
        "Inr (JStr ''I'', JStr ''V'')"
        "[''p'' \<mapsto> ''P'', ''l'' \<mapsto> ''L'', ''t'' \<mapsto> ''T'', ''w/oav.json'' \<mapsto> ''V'',
          ''w/oai.json'' \<mapsto> ''I'']"
        "Inr (JStr ''S'')"
        "[''p'' \<mapsto> ''P'', ''l'' \<mapsto> ''L'', ''t'' \<mapsto> ''T'', ''w/oav.json'' \<mapsto> ''V'',
          ''w/oai.json'' \<mapsto> ''I'', ''s'' \<mapsto> ''S'']"]
  by (simp add: demo lrn_failing_deps_def)

text \<open>
  C9. The build workflow applies \<^verbatim>\<open>buildServiceOffering\<close> to one argument object only, the
  one whose aggregated-resource list is exactly the virtual-resource URL: a list of length one,
  never empty, without the instantiated-virtual-resource URL whenever that is a different
  string. When the four earlier builders resolve, the builder is applied to that object on the
  file system the resource translator left, and the outcome and the file system of the
  workflow are the builder's; when one of them rejects, the builder is not called.
\<close>

theorem service_offering_aggregates_virtual_resource:
  assumes "c = getConfig d"
    and "vurl = joinUrl d (baseUrl c) (getVirtualResourceName d (openAPISpec c) @ ''.json'')"
    and "ra = \<lparr> openAPIUrl = openAPISpec c, didIssuer = didWebId c,
                 participantUrl = urlParticipant c,
                 virtResourceUrl = vurl,
                 virtResourceWritePath =
                   path_join d (webserverDir c) (getVirtualResourceName d (openAPISpec c) @ ''.json''),
                 instVirtResourceUrl =
                   joinUrl d (baseUrl c) (getInstantiatedVirtualResourceName d (openAPISpec c) @ ''.json''),
                 instVirtResourceWritePath =
                   path_join d (webserverDir c)
                     (getInstantiatedVirtualResourceName d (openAPISpec c) @ ''.json'') \<rparr>"
    and "sa = \<lparr> so_didIssuer = didWebId c, legalParticipantUrl = urlParticipant c,
                 termsConditionsPath = pathTermsConditions c,
                 termsConditionsUrl = urlTermsConditions c,
                 serviceOfferingUrl = urlServiceOffering c,
                 serviceOfferingWritePath = pathServiceOffering c,
                 aggregatedResourceUrls = [vurl] \<rparr>"
    and "buildParticipantVC d fs0 = (r1, fs1)"
    and "buildLegalRegistrationNumberVC d fs1 = (r2, fs2)"
    and "buildTermsConditionsVC d fs2 = (r3, fs3)"
    and "buildOpenAPIResources d ra fs3 = (r4, fs4)"
    and "buildServiceOffering d sa fs4 = (r5, fs5)"
    and "run = actionCredentials d \<lparr>files = fs0, trace = []\<rparr>"
    and "cs = calls (trace (snd run))"
    and "iurl = joinUrl d (baseUrl c)
                  (getInstantiatedVirtualResourceName d (openAPISpec c) @ ''.json'')"
  shows "(\<forall>sa'. BuildServiceOffering sa' \<in> set cs \<longrightarrow>
            sa' = sa
          \<and> aggregatedResourceUrls sa' = [vurl]
          \<and> length (aggregatedResourceUrls sa') = 1
          \<and> aggregatedResourceUrls sa' \<noteq> []
          \<and> (iurl \<noteq> vurl \<longrightarrow> iurl \<notin> set (aggregatedResourceUrls sa')))
    \<and> (\<not> isl r1 \<and> \<not> isl r2 \<and> \<not> isl r3 \<and> \<not> isl r4 \<longrightarrow>
          cs = [BuildParticipantVC, BuildLegalRegistrationNumberVC, BuildTermsConditionsVC,
                BuildOpenAPIResources ra, BuildServiceOffering sa]
        \<and> fst run = (if isl r5 then Inl (projl r5) else Inr ())
        \<and> files (snd run) = fs5)
    \<and> (isl r1 \<or> isl r2 \<or> isl r3 \<or> isl r4 \<longrightarrow>
          (\<forall>sa'. BuildServiceOffering sa' \<notin> set cs) \<and> isl (fst run))
    \<and> (fst run = Inr () \<longrightarrow> BuildServiceOffering sa \<in> set cs)"
proof -
  note run = actionCredentials_run [OF assms(1-10)]
  have agg: "aggregatedResourceUrls sa = [vurl]"
    unfolding assms(4) by simp
  from run [THEN conjunct1]
  have labels: "sa' = sa" if "BuildServiceOffering sa' \<in> set cs" for sa'
    using that unfolding assms(11) by (auto split: if_splits)
  from run [THEN conjunct1]
  have absent: "BuildServiceOffering sa' \<notin> set cs" if "isl r1 \<or> isl r2 \<or> isl r3 \<or> isl r4" for sa'
    using that unfolding assms(11) by (auto split: if_splits)
  from run
  have reached: "cs = [BuildParticipantVC, BuildLegalRegistrationNumberVC, BuildTermsConditionsVC,
                BuildOpenAPIResources ra, BuildServiceOffering sa]
        \<and> fst run = (if isl r5 then Inl (projl r5) else Inr ())
        \<and> files (snd run) = fs5"
    if "\<not> isl r1 \<and> \<not> isl r2 \<and> \<not> isl r3 \<and> \<not> isl r4"
    using that unfolding assms(11) by simp
  from run [THEN conjunct2, THEN conjunct1]
  have failed: "isl (fst run)" if "isl r1 \<or> isl r2 \<or> isl r3 \<or> isl r4"
    using that by auto
  from run
  have success: "BuildServiceOffering sa \<in> set cs" if "fst run = Inr ()"
    using that unfolding assms(11) by (auto split: if_splits)
  have first: "\<forall>sa'. BuildServiceOffering sa' \<in> set cs \<longrightarrow>
            sa' = sa
          \<and> aggregatedResourceUrls sa' = [vurl]
          \<and> length (aggregatedResourceUrls sa') = 1
          \<and> aggregatedResourceUrls sa' \<noteq> []
          \<and> (iurl \<noteq> vurl \<longrightarrow> iurl \<notin> set (aggregatedResourceUrls sa'))"
  proof (intro allI impI)
    fix sa'
    assume "BuildServiceOffering sa' \<in> set cs"
    then have "sa' = sa" by (rule labels)
    with agg show "sa' = sa
          \<and> aggregatedResourceUrls sa' = [vurl]
          \<and> length (aggregatedResourceUrls sa') = 1
          \<and> aggregatedResourceUrls sa' \<noteq> []
          \<and> (iurl \<noteq> vurl \<longrightarrow> iurl \<notin> set (aggregatedResourceUrls sa'))"
      by simp
  qed
  have second: "\<not> isl r1 \<and> \<not> isl r2 \<and> \<not> isl r3 \<and> \<not> isl r4 \<longrightarrow>
          cs = [BuildParticipantVC, BuildLegalRegistrationNumberVC, BuildTermsConditionsVC,
                BuildOpenAPIResources ra, BuildServiceOffering sa]
        \<and> fst run = (if isl r5 then Inl (projl r5) else Inr ())
        \<and> files (snd run) = fs5"
    using reached by (rule impI)
  have third: "isl r1 \<or> isl r2 \<or> isl r3 \<or> isl r4 \<longrightarrow>
          (\<forall>sa'. BuildServiceOffering sa' \<notin> set cs) \<and> isl (fst run)"
    using absent failed by blast
  have fourth: "fst run = Inr () \<longrightarrow> BuildServiceOffering sa \<in> set cs"
    using success by (rule impI)
  show ?thesis
    by (rule conjI [OF first conjI [OF second conjI [OF third fourth]]])
qed

theorem service_offering_aggregates_virtual_resource_witness:
  "buildServiceOffering demo_deps
      \<lparr> so_didIssuer = ''did'', legalParticipantUrl = ''up'', termsConditionsPath = ''t'',
        termsConditionsUrl = ''ut'', serviceOfferingUrl = ''us'', serviceOfferingWritePath = ''s'',
        aggregatedResourceUrls = [''u/oav.json''] \<rparr>
      [''p'' \<mapsto> ''P'', ''l'' \<mapsto> ''L'', ''t'' \<mapsto> ''T'', ''w/oav.json'' \<mapsto> ''V'',
       ''w/oai.json'' \<mapsto> ''I'']
     = (Inr (JStr ''S''),
        [''p'' \<mapsto> ''P'', ''l'' \<mapsto> ''L'', ''t'' \<mapsto> ''T'', ''w/oav.json'' \<mapsto> ''V'',
         ''w/oai.json'' \<mapsto> ''I'', ''s'' \<mapsto> ''S''])
   \<and> calls (trace (snd (actionCredentials demo_deps \<lparr>files = Map.empty, trace = []\<rparr>)))
     = [BuildParticipantVC, BuildLegalRegistrationNumberVC, BuildTermsConditionsVC,
        BuildOpenAPIResources
          \<lparr> openAPIUrl = ''oa'', didIssuer = ''did'', participantUrl = ''up'',
            virtResourceUrl = ''u/oav.json'', virtResourceWritePath = ''w/oav.json'',
            instVirtResourceUrl = ''u/oai.json'', instVirtResourceWritePath = ''w/oai.json'' \<rparr>,
        BuildServiceOffering
          \<lparr> so_didIssuer = ''did'', legalParticipantUrl = ''up'', termsConditionsPath = ''t'',
            termsConditionsUrl = ''ut'', serviceOfferingUrl = ''us'',
            serviceOfferingWritePath = ''s'', aggregatedResourceUrls = [''u/oav.json''] \<rparr>]
   \<and> ''u/oai.json'' \<noteq> ''u/oav.json''
   \<and> fst (actionCredentials demo_deps \<lparr>files = Map.empty, trace = []\<rparr>) = Inr ()
   \<and> files (snd (actionCredentials demo_deps \<lparr>files = Map.empty, trace = []\<rparr>))
     = [''p'' \<mapsto> ''P'', ''l'' \<mapsto> ''L'', ''t'' \<mapsto> ''T'', ''w/oav.json'' \<mapsto> ''V'',
        ''w/oai.json'' \<mapsto> ''I'', ''s'' \<mapsto> ''S'']"
  using service_offering_aggregates_virtual_resource [OF refl refl refl refl _ _ _ _ _ refl refl refl,
      of demo_deps Map.empty "Inr (JStr ''P'')" "[''p'' \<mapsto> ''P'']"
        "Inr (JStr ''L'')" "[''p'' \<mapsto> ''P'', ''l'' \<mapsto> ''L'']"
        "Inr (JStr ''T'')" "[''p'' \<mapsto> ''P'', ''l'' \<mapsto> ''L'', ''t'' \<mapsto> ''T'']"
        "Inr (JStr ''I'', JStr ''V'')"
        "[''p'' \<mapsto> ''P'', ''l'' \<mapsto> ''L'', ''t'' \<mapsto> ''T'', ''w/oav.json'' \<mapsto> ''V'',
          ''w/oai.json'' \<mapsto> ''I'']"
        "Inr (JStr ''S'')"
        "[''p'' \<mapsto> ''P'', ''l'' \<mapsto> ''L'', ''t'' \<mapsto> ''T'', ''w/oav.json'' \<mapsto> ''V'',
          ''w/oai.json'' \<mapsto> ''I'', ''s'' \<mapsto> ''S'']",
      THEN conjunct2, THEN conjunct1]
  by (simp add: demo)

text \<open>
  C10. The build workflow sends no request: its trace holds the requests it started with and no
  other, and since every call of \<^verbatim>\<open>signCredentials\<close> sends one, it never calls
  \<^verbatim>\<open>signCredentials\<close>. It is the action of the command \<^verbatim>\<open>credentials\<close>, whose description
  reads "Build and sign the Verifiable Credentials". Of the three commands only \<^verbatim>\<open>vp\<close>, whose
  action is the present-and-sign workflow, has an action that sends a request.
\<close>

theorem build_workflow_never_signs:
  "posts (trace (snd (actionCredentials d w))) = posts (trace w)
   \<and> map cmd_name (program d) = [''did'', ''credentials'', ''vp'']
   \<and> program_parse d ''credentials''
       = Some \<lparr> cmd_name = ''credentials'',
                cmd_description = ''Build and sign the Verifiable Credentials'',
                cmd_action = actionCredentials d \<rparr>
   \<and> map_option cmd_action (program_parse d ''vp'') = Some (actionVP d)
   \<and> (\<forall>cmd \<in> set (program d). cmd_name cmd \<noteq> ''vp'' \<longrightarrow>
          posts (trace (snd (cmd_action cmd w))) = posts (trace w))"
  by (simp add: program_def program_parse_def actionCredentials_posts invoke_run posts_append)

theorem build_workflow_never_signs_witness:
  "map cmd_name (program demo_deps) = [''did'', ''credentials'', ''vp'']
   \<and> posts (trace (snd (actionCredentials demo_deps \<lparr>files = Map.empty, trace = []\<rparr>))) = []
   \<and> map_option cmd_description (program_parse demo_deps ''credentials'')
       = Some ''Build and sign the Verifiable Credentials''
   \<and> posts (trace (snd (cmd_action (program demo_deps ! 0) \<lparr>files = Map.empty, trace = []\<rparr>))) = []
   \<and> posts (trace (snd (cmd_action (program demo_deps ! 1) \<lparr>files = Map.empty, trace = []\<rparr>))) = []
   \<and> length (posts (trace (snd (cmd_action (program demo_deps ! 2) demo_world)))) = 1"
  using build_workflow_never_signs [of demo_deps "\<lparr>files = Map.empty, trace = []\<rparr>"]
  by (simp add: program_def actionVP_def Let_def andThen_read_parse actionVP_after_reads demo)

section \<open>Properties that relate the two workflows\<close>

text \<open>
  C8. For one configuration and one pair of name-derivation functions, the build workflow
  applies the resource translator to one argument object only, whose two write paths are the
  webserver directory joined with the virtual and the instantiated virtual resource name of the
  OpenAPI specification, followed by \<^verbatim>\<open>.json\<close>. When the three earlier builders resolve,
  the translator is applied to that object and the workflow goes on from the file system the
  translator left. The present-and-sign workflow reads the four configured documents and then
  those two paths, in that order and nothing else, and it has read all six by the time it sends
  its request.
\<close>

theorem resource_paths_agree:
  assumes "c = getConfig d"
    and "vurl = joinUrl d (baseUrl c) (getVirtualResourceName d (openAPISpec c) @ ''.json'')"
    and "ra = \<lparr> openAPIUrl = openAPISpec c, didIssuer = didWebId c,
                 participantUrl = urlParticipant c,
                 virtResourceUrl = vurl,
                 virtResourceWritePath =
                   path_join d (webserverDir c) (getVirtualResourceName d (openAPISpec c) @ ''.json''),
                 instVirtResourceUrl =
                   joinUrl d (baseUrl c) (getInstantiatedVirtualResourceName d (openAPISpec c) @ ''.json''),
                 instVirtResourceWritePath =
                   path_join d (webserverDir c)
                     (getInstantiatedVirtualResourceName d (openAPISpec c) @ ''.json'') \<rparr>"
    and "sa = \<lparr> so_didIssuer = didWebId c, legalParticipantUrl = urlParticipant c,
                 termsConditionsPath = pathTermsConditions c,
                 termsConditionsUrl = urlTermsConditions c,
                 serviceOfferingUrl = urlServiceOffering c,
                 serviceOfferingWritePath = pathServiceOffering c,
                 aggregatedResourceUrls = [vurl] \<rparr>"
    and "buildParticipantVC d fs0 = (r1, fs1)"
    and "buildLegalRegistrationNumberVC d fs1 = (r2, fs2)"
    and "buildTermsConditionsVC d fs2 = (r3, fs3)"
    and "buildOpenAPIResources d ra fs3 = (r4, fs4)"
    and "buildServiceOffering d sa fs4 = (r5, fs5)"
    and "build = actionCredentials d \<lparr>files = fs0, trace = []\<rparr>"
    and "cs = calls (trace (snd build))"
    and "pV = path_join d (webserverDir c) (getVirtualResourceName d (openAPISpec c) @ ''.json'')"
    and "pI = path_join d (webserverDir c)
                (getInstantiatedVirtualResourceName d (openAPISpec c) @ ''.json'')"
    and "present = actionVP d \<lparr>files = fs, trace = []\<rparr>"
    and "rs = reads (trace (snd present))"
  shows "(\<forall>ra'. BuildOpenAPIResources ra' \<in> set cs \<longrightarrow> ra' = ra)
    \<and> virtResourceWritePath ra = pV
    \<and> instVirtResourceWritePath ra = pI
    \<and> (\<not> isl r1 \<and> \<not> isl r2 \<and> \<not> isl r3 \<longrightarrow>
          take 4 cs = [BuildParticipantVC, BuildLegalRegistrationNumberVC, BuildTermsConditionsVC,
                       BuildOpenAPIResources ra]
        \<and> fst build =
            (if isl r4 then Inl (projl r4) else if isl r5 then Inl (projl r5) else Inr ())
        \<and> files (snd build) = (if isl r4 then fs4 else fs5))
    \<and> (isl r1 \<or> isl r2 \<or> isl r3 \<longrightarrow>
          (\<forall>ra'. BuildOpenAPIResources ra' \<notin> set cs) \<and> isl (fst build))
    \<and> prefix rs [pathParticipant c, pathLRN c, pathTermsConditions c, pathServiceOffering c,
                  virtResourceWritePath ra, instVirtResourceWritePath ra]
    \<and> (posts (trace (snd present)) \<noteq> [] \<longrightarrow>
          rs = [pathParticipant c, pathLRN c, pathTermsConditions c, pathServiceOffering c,
                virtResourceWritePath ra, instVirtResourceWritePath ra])"
proof -
  note run = actionCredentials_run [OF assms(1-10)]
  from run [THEN conjunct1]
  have labels: "ra' = ra" if "BuildOpenAPIResources ra' \<in> set cs" for ra'
    using that unfolding assms(11) by (auto split: if_splits)
  then have first: "\<forall>ra'. BuildOpenAPIResources ra' \<in> set cs \<longrightarrow> ra' = ra"
    by blast
  have pV: "virtResourceWritePath ra = pV" and pI: "instVirtResourceWritePath ra = pI"
    unfolding assms(3,12,13) by simp_all
  from run
  have reached: "\<not> isl r1 \<and> \<not> isl r2 \<and> \<not> isl r3 \<longrightarrow>
          take 4 cs = [BuildParticipantVC, BuildLegalRegistrationNumberVC, BuildTermsConditionsVC,
                       BuildOpenAPIResources ra]
        \<and> fst build =
            (if isl r4 then Inl (projl r4) else if isl r5 then Inl (projl r5) else Inr ())
        \<and> files (snd build) = (if isl r4 then fs4 else fs5)"
    unfolding assms(11) by simp
  from run [THEN conjunct1]
  have absent: "BuildOpenAPIResources ra' \<notin> set cs" if "isl r1 \<or> isl r2 \<or> isl r3" for ra'
    using that unfolding assms(11) by (auto split: if_splits)
  from run [THEN conjunct2, THEN conjunct1]
  have failed: "isl (fst build)" if "isl r1 \<or> isl r2 \<or> isl r3"
    using that by auto
  from absent failed
  have stopped: "isl r1 \<or> isl r2 \<or> isl r3 \<longrightarrow>
          (\<forall>ra'. BuildOpenAPIResources ra' \<notin> set cs) \<and> isl (fst build)"
    by blast
  have six: "[pathParticipant c, pathLRN c, pathTermsConditions c, pathServiceOffering c,
              virtResourceWritePath ra, instVirtResourceWritePath ra]
    = [pathParticipant (getConfig d), pathLRN (getConfig d), pathTermsConditions (getConfig d),
      pathServiceOffering (getConfig d),
      path_join d (webserverDir (getConfig d))
        (getVirtualResourceName d (openAPISpec (getConfig d)) @ ''.json''),
      path_join d (webserverDir (getConfig d))
        (getInstantiatedVirtualResourceName d (openAPISpec (getConfig d)) @ ''.json'')]"
    unfolding assms(1,3) by simp
  have pre: "prefix rs [pathParticipant c, pathLRN c, pathTermsConditions c, pathServiceOffering c,
                  virtResourceWritePath ra, instVirtResourceWritePath ra]"
    unfolding six assms(14,15) by (rule actionVP_reads_prefix)
  have all: "posts (trace (snd present)) \<noteq> [] \<longrightarrow>
          rs = [pathParticipant c, pathLRN c, pathTermsConditions c, pathServiceOffering c,
                virtResourceWritePath ra, instVirtResourceWritePath ra]"
    unfolding six assms(14,15) by (rule actionVP_reads_all)
  show ?thesis
    by (rule conjI [OF first conjI [OF pV conjI [OF pI conjI [OF reached conjI [OF stopped
          conjI [OF pre all]]]]]])
qed

theorem resource_paths_agree_witness:
  "buildOpenAPIResources demo_deps
      \<lparr> openAPIUrl = ''oa'', didIssuer = ''did'', participantUrl = ''up'',
        virtResourceUrl = ''u/oav.json'', virtResourceWritePath = ''w/oav.json'',
        instVirtResourceUrl = ''u/oai.json'', instVirtResourceWritePath = ''w/oai.json'' \<rparr>
      [''p'' \<mapsto> ''P'', ''l'' \<mapsto> ''L'', ''t'' \<mapsto> ''T'']
     = (Inr (JStr ''I'', JStr ''V''),
        [''p'' \<mapsto> ''P'', ''l'' \<mapsto> ''L'', ''t'' \<mapsto> ''T'', ''w/oav.json'' \<mapsto> ''V'',
         ''w/oai.json'' \<mapsto> ''I''])
   \<and> files (snd (actionCredentials demo_deps \<lparr>files = Map.empty, trace = []\<rparr>))
     = [''p'' \<mapsto> ''P'', ''l'' \<mapsto> ''L'', ''t'' \<mapsto> ''T'', ''w/oav.json'' \<mapsto> ''V'',
        ''w/oai.json'' \<mapsto> ''I'', ''s'' \<mapsto> ''S'']
   \<and> posts (trace (snd (actionVP demo_deps
        \<lparr>files = [''p'' \<mapsto> ''P'', ''l'' \<mapsto> ''L'', ''t'' \<mapsto> ''T'', ''w/oav.json'' \<mapsto> ''V'',
                   ''w/oai.json'' \<mapsto> ''I'', ''s'' \<mapsto> ''S''], trace = []\<rparr>))) \<noteq> []
   \<and> reads (trace (snd (actionVP demo_deps
        \<lparr>files = [''p'' \<mapsto> ''P'', ''l'' \<mapsto> ''L'', ''t'' \<mapsto> ''T'', ''w/oav.json'' \<mapsto> ''V'',
                   ''w/oai.json'' \<mapsto> ''I'', ''s'' \<mapsto> ''S''], trace = []\<rparr>)))
     = [''p'', ''l'', ''t'', ''s'', ''w/oav.json'', ''w/oai.json'']"
  using resource_paths_agree [OF refl refl refl refl _ _ _ _ _ refl refl refl refl refl refl,
      of demo_deps Map.empty "Inr (JStr ''P'')" "[''p'' \<mapsto> ''P'']"
        "Inr (JStr ''L'')" "[''p'' \<mapsto> ''P'', ''l'' \<mapsto> ''L'']"
        "Inr (JStr ''T'')" "[''p'' \<mapsto> ''P'', ''l'' \<mapsto> ''L'', ''t'' \<mapsto> ''T'']"
        "Inr (JStr ''I'', JStr ''V'')"
        "[''p'' \<mapsto> ''P'', ''l'' \<mapsto> ''L'', ''t'' \<mapsto> ''T'', ''w/oav.json'' \<mapsto> ''V'',
          ''w/oai.json'' \<mapsto> ''I'']"
        "Inr (JStr ''S'')"
        "[''p'' \<mapsto> ''P'', ''l'' \<mapsto> ''L'', ''t'' \<mapsto> ''T'', ''w/oav.json'' \<mapsto> ''V'',
          ''w/oai.json'' \<mapsto> ''I'', ''s'' \<mapsto> ''S'']"
        "[''p'' \<mapsto> ''P'', ''l'' \<mapsto> ''L'', ''t'' \<mapsto> ''T'', ''w/oav.json'' \<mapsto> ''V'',
          ''w/oai.json'' \<mapsto> ''I'', ''s'' \<mapsto> ''S'']",
      THEN conjunct2, THEN conjunct2, THEN conjunct2, THEN conjunct1]
  by (simp add: demo actionVP_def Let_def andThen_read_parse actionVP_after_reads)

end
